theory Spec2Isabelle
  imports Main "HOL-Library.Word"
begin

section \<open>The Python string operations the scanner front end uses\<close>

text \<open>
  A \<^typ>\<open>char\<close> stands for one code point below 256, so a \<^typ>\<open>string\<close> is a Python
  \<^verbatim>\<open>str\<close> over that range; text with larger code points is outside the model.
\<close>

text \<open>\<^verbatim>\<open>str.isspace\<close> on one character: the code points below 256 that Python counts as
  white space (tab to carriage return, the four separators 28 to 31, space, NEL, NBSP).\<close>

definition isspace :: "char \<Rightarrow> bool" where
  "isspace c = (of_char c \<in> {9, 10, 11, 12, 13, 28, 29, 30, 31, 32, 133, 160 :: nat})"

text \<open>\<^verbatim>\<open>s.strip()\<close>: white space removed at both ends.\<close>

definition strip :: "string \<Rightarrow> string" where
  "strip s = rev (dropWhile isspace (rev (dropWhile isspace s)))"

text \<open>\<^verbatim>\<open>s.split(sep)\<close> for a one-character separator: never the empty list, empty fields kept.\<close>

fun split_str :: "char \<Rightarrow> string \<Rightarrow> string list" where
  "split_str sep [] = [[]]"
| "split_str sep (c # cs) =
     (if c = sep then [] # split_str sep cs
      else (case split_str sep cs of
              [] \<Rightarrow> [[c]]
            | w # ws \<Rightarrow> (c # w) # ws))"

text \<open>\<^verbatim>\<open>s.lower()\<close>: A to Z and the Latin-1 capitals (192 to 222 without the
  multiplication sign 215) move up by 32; every other character below 256 is kept.\<close>

definition lower_char :: "char \<Rightarrow> char" where
  "lower_char c =
     (let n = (of_char c :: nat)
      in if (65 \<le> n \<and> n \<le> 90) \<or> (192 \<le> n \<and> n \<le> 222 \<and> n \<noteq> 215)
         then char_of (n + 32) else c)"

definition lower :: "string \<Rightarrow> string" where
  "lower s = map lower_char s"

definition startswith :: "string \<Rightarrow> string \<Rightarrow> bool" where
  "startswith s p = (take (length p) s = p)"

text \<open>\<^verbatim>\<open>sep.join(xs)\<close>.\<close>

fun join :: "string \<Rightarrow> string list \<Rightarrow> string" where
  "join sep [] = []"
| "join sep [x] = x"
| "join sep (x # y # ys) = x @ sep @ join sep (y # ys)"

text \<open>\<^verbatim>\<open>str(n)\<close> for an integer, as the f-string \<^verbatim>\<open>f'-T{cfg.timing}'\<close> formats it.\<close>

fun str_nat :: "nat \<Rightarrow> string" where
  "str_nat n =
     (if n < 10 then [char_of (48 + n)]
      else str_nat (n div 10) @ [char_of (48 + n mod 10)])"

declare str_nat.simps [simp del]

definition str_int :: "int \<Rightarrow> string" where
  "str_int n = (if n < 0 then CHR ''-'' # str_nat (nat (- n)) else str_nat (nat n))"

subsection \<open>Exceptions\<close>

datatype exn =
    EOFError
  | ValueError
  | OSError
  | CalledProcessError int
  | SystemExit int

text \<open>
  \<^verbatim>\<open>int(s)\<close> on a string, base ten: white space stripped at both ends, one optional sign,
  then digits, where a single underscore may stand between two digits. Anything else
  raises \<^verbatim>\<open>ValueError\<close>. (The interpreter's limit on the number of digits, 4300 since
  Python 3.11, is not modelled.)
\<close>

definition isdigit :: "char \<Rightarrow> bool" where
  "isdigit c = (48 \<le> (of_char c :: nat) \<and> (of_char c :: nat) \<le> 57)"

definition digit_val :: "char \<Rightarrow> nat" where
  "digit_val c = of_char c - 48"

fun int_digits :: "nat \<Rightarrow> string \<Rightarrow> nat option" where
  "int_digits acc [] = Some acc"
| "int_digits acc [c] =
     (if isdigit c then Some (10 * acc + digit_val c) else None)"
| "int_digits acc (c # d # ds) =
     (if isdigit c then int_digits (10 * acc + digit_val c) (d # ds)
      else if c = CHR ''_'' \<and> isdigit d then int_digits (10 * acc + digit_val d) ds
      else None)"

definition int_unsigned :: "string \<Rightarrow> nat option" where
  "int_unsigned u =
     (case u of
        [] \<Rightarrow> None
      | c # cs \<Rightarrow> if isdigit c then int_digits (digit_val c) cs else None)"

definition int_of_str :: "string \<Rightarrow> exn + int" where
  "int_of_str s =
     (let t = strip s;
          neg = (case t of c # _ \<Rightarrow> c = CHR ''-'' | [] \<Rightarrow> False);
          u = (case t of c # cs \<Rightarrow> if c = CHR ''-'' \<or> c = CHR ''+'' then cs else t | [] \<Rightarrow> t)
      in case int_unsigned u of
           None \<Rightarrow> Inl ValueError
         | Some n \<Rightarrow> Inr (if neg then - int n else int n))"

section \<open>Target Normalizer: \<^verbatim>\<open>strip_url\<close>\<close>

text \<open>
  The source is \<^verbatim>\<open>re.sub(r'^(https?://)?(www\.)?', '', target)\<close>. The pattern is embedded
  as a regular expression tree and matched the way Python's backtracking matcher does:
  \<open>rmatch r s\<close> lists what is left of \<open>s\<close> after each way \<open>r\<close> can match a prefix of it,
  in the matcher's order of preference (a greedy \<^verbatim>\<open>?\<close> tries its operand first, then
  the empty match).
\<close>

datatype regex =
    Eps
  | Lit char
  | Seq regex regex
  | Opt regex

fun rmatch :: "regex \<Rightarrow> string \<Rightarrow> string list" where
  "rmatch Eps s = [s]"
| "rmatch (Lit c) s = (case s of [] \<Rightarrow> [] | x # xs \<Rightarrow> if x = c then [xs] else [])"
| "rmatch (Seq a b) s = concat (map (rmatch b) (rmatch a s))"
| "rmatch (Opt a) s = rmatch a s @ [s]"

text \<open>A literal run of characters.\<close>

fun lits :: "string \<Rightarrow> regex" where
  "lits [] = Eps"
| "lits (c # cs) = Seq (Lit c) (lits cs)"

text \<open>\<^verbatim>\<open>(https?://)?(www\.)?\<close>, the pattern after its anchor.\<close>

definition url_prefix :: regex where
  "url_prefix =
     Seq (Opt (Seq (lits ''http'') (Seq (Opt (Lit CHR ''s'')) (lits ''://''))))
         (Opt (lits ''www.''))"

text \<open>
  \<^verbatim>\<open>re.sub\<close> for a pattern that starts with \<^verbatim>\<open>^\<close> (no MULTILINE flag): a match can
  begin at index 0 only, so at most the first match there is replaced and the rest of the
  string is copied.
\<close>

definition sub_at_start :: "regex \<Rightarrow> string \<Rightarrow> string \<Rightarrow> string" where
  "sub_at_start r repl s =
     (case rmatch r s of
        [] \<Rightarrow> s
      | rest # _ \<Rightarrow> repl @ rest)"

definition strip_url :: "string \<Rightarrow> string" where
  "strip_url target = sub_at_start url_prefix [] target"

text \<open>
  The contract of the Target Normalizer in the specification's words: remove an optional
  leading scheme, then an optional leading \<^verbatim>\<open>www.\<close>, return the rest.
\<close>

definition remove_prefix :: "string \<Rightarrow> string \<Rightarrow> string" where
  "remove_prefix p s = (if startswith s p then drop (length p) s else s)"

definition normalize_spec :: "string \<Rightarrow> string" where
  "normalize_spec s =
     remove_prefix ''www.''
       (if startswith s ''http://'' then drop 7 s
        else if startswith s ''https://'' then drop 8 s
        else s)"

section \<open>Configuration Model\<close>

text \<open>
  The \<^verbatim>\<open>argparse.Namespace\<close> the program passes around, one field per \<^verbatim>\<open>add_argument\<close>.
  Two fields change their Python type along the way, so the record is generic in them:
  \<open>target\<close> is \<^verbatim>\<open>None\<close> or a string as the parser leaves it and a string once the
  configuration is final; \<open>timing\<close> is the text given on the command line before
  \<^verbatim>\<open>type=int\<close> is applied and an integer after.
\<close>

record ('t, 'n) namespace =
  target :: 't
  interactive :: bool
  syn_scan :: bool
  connect_scan :: bool
  udp_scan :: bool
  version_detect :: bool
  script_default :: bool
  script_cats :: "string option"
  script_file :: "string option"
  os_detect :: bool
  skip_ping :: bool
  decoy :: "string option"
  timing :: 'n
  ports :: "string option"
  output_normal :: "string option"
  output_xml :: "string option"
  output_grep :: "string option"
  output_json :: "string option"

type_synonym config = "(string, int) namespace"

text \<open>Python's truth value of a field that holds \<^verbatim>\<open>None\<close> or a string.\<close>

definition truthy :: "string option \<Rightarrow> bool" where
  "truthy v = (case v of None \<Rightarrow> False | Some s \<Rightarrow> s \<noteq> [])"

text \<open>Assignment to \<open>target\<close> and to \<open>timing\<close>, which may change the field's type.\<close>

definition set_target :: "('a, 'n) namespace \<Rightarrow> 'b \<Rightarrow> ('b, 'n) namespace" where
  "set_target a t =
     \<lparr>target = t, interactive = interactive a, syn_scan = syn_scan a,
      connect_scan = connect_scan a, udp_scan = udp_scan a,
      version_detect = version_detect a, script_default = script_default a,
      script_cats = script_cats a, script_file = script_file a, os_detect = os_detect a,
      skip_ping = skip_ping a, decoy = decoy a, timing = timing a, ports = ports a,
      output_normal = output_normal a, output_xml = output_xml a,
      output_grep = output_grep a, output_json = output_json a\<rparr>"

definition set_timing :: "('t, 'a) namespace \<Rightarrow> 'b \<Rightarrow> ('t, 'b) namespace" where
  "set_timing a n =
     \<lparr>target = target a, interactive = interactive a, syn_scan = syn_scan a,
      connect_scan = connect_scan a, udp_scan = udp_scan a,
      version_detect = version_detect a, script_default = script_default a,
      script_cats = script_cats a, script_file = script_file a, os_detect = os_detect a,
      skip_ping = skip_ping a, decoy = decoy a, timing = n, ports = ports a,
      output_normal = output_normal a, output_xml = output_xml a,
      output_grep = output_grep a, output_json = output_json a\<rparr>"

section \<open>Argument Source, non-interactive: \<^verbatim>\<open>parse_args\<close>\<close>

text \<open>
  How \<^verbatim>\<open>argparse\<close> matches the words of \<^verbatim>\<open>sys.argv\<close> against the declared option
  strings is library code. The model starts from what that matching yields: the command
  line is rejected (an unknown option, a missing value, a second positional), it asks
  for help, or every declared option is matched with the raw text of its value.
  What the declarations of \<^verbatim>\<open>parse_args\<close> themselves fix is modelled: the defaults and,
  for \<^verbatim>\<open>-T\<close>, \<^verbatim>\<open>type=int, choices=range(0,6), default=4\<close>.
  A usage error leaves through \<^verbatim>\<open>sys.exit(2)\<close>, help through \<^verbatim>\<open>sys.exit(0)\<close>.
\<close>

datatype cmdline =
    Rejected
  | Help
  | Matched "(string option, string option) namespace"

definition timing_arg :: "string option \<Rightarrow> exn + int" where
  "timing_arg v =
     (case v of
        None \<Rightarrow> Inr 4
      | Some s \<Rightarrow>
          (case int_of_str s of
             Inl _ \<Rightarrow> Inl (SystemExit 2)
           | Inr n \<Rightarrow> if 0 \<le> n \<and> n < 6 then Inr n else Inl (SystemExit 2)))"

definition parse_args :: "cmdline \<Rightarrow> exn + (string option, int) namespace" where
  "parse_args c =
     (case c of
        Rejected \<Rightarrow> Inl (SystemExit 2)
      | Help \<Rightarrow> Inl (SystemExit 0)
      | Matched m \<Rightarrow>
          (case timing_arg (timing m) of
             Inl e \<Rightarrow> Inl e
           | Inr n \<Rightarrow> Inr (set_timing m n)))"

section \<open>Command Builder: \<^verbatim>\<open>build_command\<close>\<close>

definition build_command :: "config \<Rightarrow> string list" where
  "build_command cfg =
     (let cmd = [''sudo'', ''nmap''];
          cmd = (if skip_ping cfg then cmd @ [''-Pn''] else cmd);
          cmd = (if syn_scan cfg then cmd @ [''-sS''] else cmd);
          cmd = (if connect_scan cfg then cmd @ [''-sT''] else cmd);
          cmd = (if udp_scan cfg then cmd @ [''-sU''] else cmd);
          cmd = (if version_detect cfg then cmd @ [''-sV''] else cmd);
          cmd = (if script_default cfg then cmd @ [''-sC''] else cmd);
          cmd = (case script_cats cfg of
                   Some s \<Rightarrow> if s \<noteq> [] then cmd @ [''--script'', s] else cmd
                 | None \<Rightarrow> cmd);
          cmd = (case script_file cfg of
                   Some s \<Rightarrow> if s \<noteq> [] then cmd @ [''--script'', s] else cmd
                 | None \<Rightarrow> cmd);
          cmd = (if os_detect cfg then cmd @ [''-O''] else cmd);
          cmd = (case decoy cfg of
                   Some s \<Rightarrow> if s \<noteq> [] then cmd @ [''--decoy'', s] else cmd
                 | None \<Rightarrow> cmd);
          cmd = cmd @ [''-T'' @ str_int (timing cfg)];
          cmd = (case ports cfg of
                   Some s \<Rightarrow> if s \<noteq> [] then cmd @ [''-p'', s] else cmd
                 | None \<Rightarrow> cmd);
          cmd = cmd @ [target cfg];
          cmd = (case output_normal cfg of
                   Some s \<Rightarrow> if s \<noteq> [] then cmd @ [''-oN'', s] else cmd
                 | None \<Rightarrow> cmd);
          cmd = (case output_xml cfg of
                   Some s \<Rightarrow> if s \<noteq> [] then cmd @ [''-oX'', s] else cmd
                 | None \<Rightarrow> cmd);
          cmd = (case output_grep cfg of
                   Some s \<Rightarrow> if s \<noteq> [] then cmd @ [''-oG'', s] else cmd
                 | None \<Rightarrow> cmd);
          cmd = (case output_json cfg of
                   Some s \<Rightarrow> if s \<noteq> [] then cmd @ [''-oJ'', s] else cmd
                 | None \<Rightarrow> cmd)
      in cmd)"

text \<open>
  The token order in the specification's words: each segment is empty when its flag is
  off or its value is not set, and a value counts as set when it is a non-empty string.
\<close>

definition flag_token :: "bool \<Rightarrow> string \<Rightarrow> string list" where
  "flag_token b t = (if b then [t] else [])"

definition value_tokens :: "string \<Rightarrow> string option \<Rightarrow> string list" where
  "value_tokens t v = (if truthy v then [t, the v] else [])"

definition token_order :: "config \<Rightarrow> string list" where
  "token_order cfg =
     [''sudo''] @ [''nmap'']
     @ flag_token (skip_ping cfg) ''-Pn''
     @ flag_token (syn_scan cfg) ''-sS''
     @ flag_token (connect_scan cfg) ''-sT''
     @ flag_token (udp_scan cfg) ''-sU''
     @ flag_token (version_detect cfg) ''-sV''
     @ flag_token (script_default cfg) ''-sC''
     @ value_tokens ''--script'' (script_cats cfg)
     @ value_tokens ''--script'' (script_file cfg)
     @ flag_token (os_detect cfg) ''-O''
     @ value_tokens ''--decoy'' (decoy cfg)
     @ [''-T'' @ str_int (timing cfg)]
     @ value_tokens ''-p'' (ports cfg)
     @ [target cfg]
     @ value_tokens ''-oN'' (output_normal cfg)
     @ value_tokens ''-oX'' (output_xml cfg)
     @ value_tokens ''-oG'' (output_grep cfg)
     @ value_tokens ''-oJ'' (output_json cfg)"

section \<open>The program's view of the world\<close>

text \<open>
  \<open>stdin\<close> holds the lines not yet read; \<open>stdout\<close> and \<open>stderr\<close> collect what the
  program itself writes (not the text of \<^verbatim>\<open>argparse\<close>, of a traceback or of the child);
  \<open>launched\<close> lists the commands handed to \<^verbatim>\<open>subprocess.run\<close>.
  A computation returns a value and the new world, or the exception it raised and the
  world at that point.
\<close>

record world =
  stdin :: "string list"
  stdout :: "string list"
  stderr :: "string list"
  launched :: "string list list"

type_synonym 'a io = "world \<Rightarrow> (exn \<times> world) + ('a \<times> world)"

definition return :: "'a \<Rightarrow> 'a io" where
  "return x = (\<lambda>w. Inr (x, w))"

definition raise :: "exn \<Rightarrow> 'a io" where
  "raise e = (\<lambda>w. Inl (e, w))"

definition bind :: "'a io \<Rightarrow> ('a \<Rightarrow> 'b io) \<Rightarrow> 'b io" where
  "bind m f = (\<lambda>w. case m w of Inl e \<Rightarrow> Inl e | Inr (x, w') \<Rightarrow> f x w')"

definition lift :: "exn + 'a \<Rightarrow> 'a io" where
  "lift r = (case r of Inl e \<Rightarrow> raise e | Inr x \<Rightarrow> return x)"

text \<open>\<^verbatim>\<open>print(s)\<close> and \<^verbatim>\<open>print(s, file=sys.stderr)\<close>.\<close>

definition print :: "string \<Rightarrow> unit io" where
  "print s = (\<lambda>w. Inr ((), w\<lparr>stdout := stdout w @ [s @ [CHR 0x0A]]\<rparr>))"

definition print_err :: "string \<Rightarrow> unit io" where
  "print_err s = (\<lambda>w. Inr ((), w\<lparr>stderr := stderr w @ [s @ [CHR 0x0A]]\<rparr>))"

text \<open>\<^verbatim>\<open>input(prompt)\<close>: the prompt is written, then one line is read; at end of input
  \<^verbatim>\<open>EOFError\<close> is raised.\<close>

definition input :: "string \<Rightarrow> string io" where
  "input prompt =
     (\<lambda>w. case stdin w of
             [] \<Rightarrow> Inl (EOFError, w\<lparr>stdout := stdout w @ [prompt]\<rparr>)
           | l # ls \<Rightarrow> Inr (l, w\<lparr>stdin := ls, stdout := stdout w @ [prompt]\<rparr>))"

section \<open>Argument Source, interactive: \<^verbatim>\<open>interactive_mode\<close>\<close>

text \<open>\<^verbatim>\<open>s or None\<close> and \<^verbatim>\<open>s or d\<close> for a string \<open>s\<close>.\<close>

definition or_none :: "string \<Rightarrow> string option" where
  "or_none s = (if s \<noteq> [] then Some s else None)"

definition or_default :: "string \<Rightarrow> string \<Rightarrow> string" where
  "or_default s d = (if s \<noteq> [] then s else d)"

text \<open>\<^verbatim>\<open>int(answer or 4)\<close>: the answer is not stripped before the test for emptiness.\<close>

definition timing_answer :: "string \<Rightarrow> exn + int" where
  "timing_answer l = (if l \<noteq> [] then int_of_str l else Inr 4)"

text \<open>
  The prompts in the order of the source. Line 83 calls \<^verbatim>\<open>parse_args()\<close> a second time
  and keeps only the names of its fields, each set to \<^verbatim>\<open>False\<close>; every field but
  \<open>interactive\<close> is assigned afterwards.
\<close>

definition interactive_mode :: "cmdline \<Rightarrow> config io" where
  "interactive_mode cl =
     bind (print ''--- Interactive Nmap Configuration ---'') (\<lambda>_.
     bind (input ''Target IP/hostname/URL: '') (\<lambda>l1.
     bind (print ''Select scans (comma separated): 1) SYN 2) Connect 3) UDP 4) Version 5) OS 6) Default scripts'') (\<lambda>_.
     bind (input ''Enter numbers [1-6]: '') (\<lambda>l2.
     bind (lift (parse_args cl)) (\<lambda>_.
     bind (input ''Skip host discovery? (y/N): '') (\<lambda>l3.
     bind (input ''NSE categories (e.g. vuln,discovery) or leave blank: '') (\<lambda>l4.
     bind (input ''Specific NSE script file/dir or blank: '') (\<lambda>l5.
     bind (input ''Decoy IPs (comma separated) or blank: '') (\<lambda>l6.
     bind (input ''Timing template (0-5) [4]: '') (\<lambda>l7.
     bind (lift (timing_answer l7)) (\<lambda>n.
     bind (input ''Port range [1-1000]: '') (\<lambda>l8.
     bind (input ''Output file name [scan.txt]: '') (\<lambda>l9.
     let choices = split_str CHR '','' l2
     in return
          \<lparr>target = strip_url (strip l1),
           interactive = False,
           syn_scan = (''1'' \<in> set choices),
           connect_scan = (''2'' \<in> set choices),
           udp_scan = (''3'' \<in> set choices),
           version_detect = (''4'' \<in> set choices),
           script_default = (''6'' \<in> set choices),
           script_cats = or_none (strip l4),
           script_file = or_none (strip l5),
           os_detect = (''5'' \<in> set choices),
           skip_ping = startswith (lower l3) ''y'',
           decoy = or_none (strip l6),
           timing = n,
           ports = Some (or_default (strip l8) ''1-1000''),
           output_normal = Some (or_default (strip l9) ''scan.txt''),
           output_xml = None,
           output_grep = None,
           output_json = None\<rparr>)))))))))))))"

section \<open>Process Runner and \<^verbatim>\<open>main\<close>\<close>

text \<open>
  What the operating system reports for the child: it ran and left with an 8-bit exit
  status, it was ended by a signal, or it could not be started.
  \<^verbatim>\<open>subprocess\<close> turns the first into the return code of the same value and the second
  into the negated signal number.
\<close>

datatype child_result =
    Exited "8 word"
  | Signaled nat
  | LaunchFailed

text \<open>
  The surroundings of one run: the command line as \<^verbatim>\<open>argparse\<close> reads it, what the child
  does with a given command, and the text \<^verbatim>\<open>str(e)\<close> of a \<^verbatim>\<open>CalledProcessError\<close>
  (composed by the \<^verbatim>\<open>subprocess\<close> library from the command and the return code).
\<close>

record env =
  argv :: cmdline
  child :: "string list \<Rightarrow> child_result"
  error_text :: "string list \<Rightarrow> int \<Rightarrow> string"

text \<open>\<^verbatim>\<open>subprocess.run(cmd, check=True)\<close>.\<close>

definition run :: "env \<Rightarrow> string list \<Rightarrow> unit io" where
  "run e cmd =
     (\<lambda>w. let w' = w\<lparr>launched := launched w @ [cmd]\<rparr>
          in case child e cmd of
               LaunchFailed \<Rightarrow> Inl (OSError, w')
             | Exited s \<Rightarrow>
                 if uint s = 0 then Inr ((), w') else Inl (CalledProcessError (uint s), w')
             | Signaled k \<Rightarrow>
                 if k = 0 then Inr ((), w') else Inl (CalledProcessError (- int k), w'))"

text \<open>\<^verbatim>\<open>try: ... except subprocess.CalledProcessError as e: ...\<close>\<close>

definition try_except :: "'a io \<Rightarrow> (int \<Rightarrow> 'a io) \<Rightarrow> 'a io" where
  "try_except body handler =
     (\<lambda>w. case body w of
             Inl (CalledProcessError rc, w') \<Rightarrow> handler rc w'
           | r \<Rightarrow> r)"

text \<open>
  \<^verbatim>\<open>main\<close> in its two phases. Lines 103 to 108 choose the Argument Source and leave the
  final configuration; lines 110 to 116 are the Process Runner, which prints the command,
  runs it and reports the outcome. Line 109 builds the command in between.
\<close>

definition argument_source :: "env \<Rightarrow> config io" where
  "argument_source e =
     bind (lift (parse_args (argv e))) (\<lambda>args.
     if interactive args \<or> \<not> truthy (target args)
     then interactive_mode (argv e)
     else return (set_target args (strip_url (the (target args)))))"

definition process_runner :: "env \<Rightarrow> string list \<Rightarrow> unit io" where
  "process_runner e cmd =
     bind (print (''Running: '' @ join '' '' cmd)) (\<lambda>_.
     try_except
       (bind (run e cmd) (\<lambda>_. print ''Scan complete.''))
       (\<lambda>rc. bind (print_err (''Error: '' @ error_text e cmd rc)) (\<lambda>_.
              raise (SystemExit rc))))"

definition main :: "env \<Rightarrow> unit io" where
  "main e = bind (argument_source e) (\<lambda>cfg. process_runner e (build_command cfg))"

text \<open>
  The exit status of the whole program: 0 when \<^verbatim>\<open>main\<close> returns, the low eight bits of
  the argument of \<^verbatim>\<open>sys.exit\<close>, and 1 when any other exception reaches the top.
\<close>

definition exit_status :: "(exn \<times> world) + (unit \<times> world) \<Rightarrow> int" where
  "exit_status r =
     (case r of
        Inr _ \<Rightarrow> 0
      | Inl (SystemExit n, _) \<Rightarrow> n mod 256
      | Inl _ \<Rightarrow> 1)"

section \<open>Observations and example runs\<close>

text \<open>Whether a string begins with one of the prefixes the Target Normalizer removes.\<close>

definition has_url_prefix :: "string \<Rightarrow> bool" where
  "has_url_prefix s =
     (startswith s ''http://'' \<or> startswith s ''https://'' \<or> startswith s ''www.'')"

text \<open>The world a computation leaves behind, whether it returned or raised.\<close>

definition final_world :: "(exn \<times> world) + ('a \<times> world) \<Rightarrow> world" where
  "final_world r = (case r of Inl (_, w) \<Rightarrow> w | Inr (_, w) \<Rightarrow> w)"

text \<open>
  The usage examples of the module's docstring: \<^verbatim>\<open>python3 nmap_scanner.py\<close> with no
  argument, and
  \<^verbatim>\<open>python3 nmap_scanner.py https://example.com -sS -T5 -oN results.txt\<close>.
\<close>

definition no_arguments :: "(string option, string option) namespace" where
  "no_arguments =
     \<lparr>target = None, interactive = False, syn_scan = False, connect_scan = False,
      udp_scan = False, version_detect = False, script_default = False,
      script_cats = None, script_file = None, os_detect = False, skip_ping = False,
      decoy = None, timing = None, ports = None, output_normal = None,
      output_xml = None, output_grep = None, output_json = None\<rparr>"

definition usage_example :: "(string option, string option) namespace" where
  "usage_example =
     no_arguments\<lparr>target := Some ''https://example.com'', syn_scan := True,
                  timing := Some ''5'', output_normal := Some ''results.txt''\<rparr>"

text \<open>A run with the given options whose child leaves with the given status, and a
  terminal on which the given lines are typed.\<close>

definition session :: "(string option, string option) namespace \<Rightarrow> 8 word \<Rightarrow> env" where
  "session m st =
     \<lparr>argv = Matched m, child = (\<lambda>_. Exited st), error_text = (\<lambda>_ _. ''failed'')\<rparr>"

definition terminal :: "string list \<Rightarrow> world" where
  "terminal ls = \<lparr>stdin = ls, stdout = [], stderr = [], launched = []\<rparr>"

section \<open>The Target Normalizer meets its contract\<close>

lemma rmatch_lits:
  "rmatch (lits p) s = (if startswith s p then [drop (length p) s] else [])"
proof (induction p arbitrary: s)
  case Nil
  then show ?case by (simp add: startswith_def)
next
  case (Cons c p)
  show ?case
  proof (cases s)
    case Nil
    then show ?thesis by (simp add: startswith_def)
  next
    case (Cons x xs)
    then show ?thesis using Cons.IH [of xs] by (auto simp: startswith_def)
  qed
qed

lemma startswith_append:
  "startswith s (p @ q) \<longleftrightarrow> startswith s p \<and> startswith (drop (length p) s) q"
  unfolding startswith_def
  by (metis append_eq_conv_conj append_take_drop_id drop_take length_append take_add
      diff_add_inverse take_drop)

lemma rmatch_opt_s:
  "rmatch (Seq (Opt (Lit CHR ''s'')) (lits ''://'')) t =
     (if startswith t ''s://'' then [drop 4 t]
      else if startswith t ''://'' then [drop 3 t] else [])"
  by (cases t)
     (auto simp del: lits.simps simp add: rmatch_lits startswith_def eval_nat_numeral)

lemma rmatch_scheme:
  "rmatch (Seq (lits ''http'') (Seq (Opt (Lit CHR ''s'')) (lits ''://''))) s =
     (if startswith s ''https://'' then [drop 8 s]
      else if startswith s ''http://'' then [drop 7 s] else [])"
proof -
  have a: "startswith s ''https://'' \<longleftrightarrow>
             startswith s ''http'' \<and> startswith (drop 4 s) ''s://''"
    using startswith_append [of s "''http''" "''s://''"] by (simp add: eval_nat_numeral)
  have b: "startswith s ''http://'' \<longleftrightarrow>
             startswith s ''http'' \<and> startswith (drop 4 s) ''://''"
    using startswith_append [of s "''http''" "''://''"] by (simp add: eval_nat_numeral)
  have h: "rmatch (lits ''http'') s = (if startswith s ''http'' then [drop 4 s] else [])"
    using rmatch_lits [of "''http''" s] by (simp add: eval_nat_numeral)
  have d: "drop 4 (drop 4 s) = drop 8 s" "drop 3 (drop 4 s) = drop 7 s"
    by simp_all
  show ?thesis
  proof (cases "startswith s ''http''")
    case False
    then show ?thesis
      unfolding a b rmatch.simps(3) [of "lits ''http''"] h by simp
  next
    case True
    then show ?thesis
      unfolding a b rmatch.simps(3) [of "lits ''http''"] h
      by (simp only: if_True list.map concat.simps append_Nil2 rmatch_opt_s d simp_thms)
  qed
qed

lemma scheme_exclusive: "\<not> (startswith s ''https://'' \<and> startswith s ''http://'')"
proof
  assume h: "startswith s ''https://'' \<and> startswith s ''http://''"
  then have "take 7 (take 8 s) = take 7 ''https://''"
    by (simp add: startswith_def eval_nat_numeral)
  then have "take 7 s = ''https:/''"
    by (simp add: eval_nat_numeral)
  with h show False
    by (simp add: startswith_def eval_nat_numeral)
qed

lemma rmatch_www:
  "rmatch (Opt (lits ''www.'')) s = (if startswith s ''www.'' then [drop 4 s, s] else [s])"
  using rmatch_lits [of "''www.''" s] by (simp del: lits.simps add: eval_nat_numeral)

lemma strip_url_eq: "strip_url s = normalize_spec s"
proof -
  let ?S = "Seq (lits ''http'') (Seq (Opt (Lit CHR ''s'')) (lits ''://''))"
  have m: "rmatch url_prefix s =
             concat (map (rmatch (Opt (lits ''www.''))) (rmatch ?S s @ [s]))"
    unfolding url_prefix_def rmatch.simps(3) [of "Opt ?S"] rmatch.simps(4) [of ?S] ..
  show ?thesis
    unfolding strip_url_def sub_at_start_def m rmatch_scheme normalize_spec_def
      remove_prefix_def
    using scheme_exclusive [of s]
    by (simp del: lits.simps rmatch.simps add: rmatch_www eval_nat_numeral)
qed

text \<open>
  Claim C3. For every input string, \<^verbatim>\<open>strip_url\<close> removes an optional leading
  \<^verbatim>\<open>http://\<close> or \<^verbatim>\<open>https://\<close>, then an optional leading \<^verbatim>\<open>www.\<close>, and returns the
  remainder unchanged: the regular-expression substitution of the source computes
  exactly \<open>normalize_spec\<close>. In particular \<^verbatim>\<open>https://www.example.com\<close> maps to
  \<^verbatim>\<open>example.com\<close>, \<^verbatim>\<open>www.test.org\<close> to \<^verbatim>\<open>test.org\<close>, and \<^verbatim>\<open>example.com\<close> is unchanged.
\<close>

theorem strip_url_contract:
  "strip_url s = normalize_spec s
   \<and> strip_url ''https://www.example.com'' = ''example.com''
   \<and> strip_url ''www.test.org'' = ''test.org''
   \<and> strip_url ''example.com'' = ''example.com''"
proof -
  have "strip_url ''https://www.example.com'' = ''example.com''"
    by (simp add: strip_url_def sub_at_start_def url_prefix_def)
  moreover have "strip_url ''www.test.org'' = ''test.org''"
    by (simp add: strip_url_def sub_at_start_def url_prefix_def)
  moreover have "strip_url ''example.com'' = ''example.com''"
    by (simp add: strip_url_def sub_at_start_def url_prefix_def)
  ultimately show ?thesis
    using strip_url_eq [of s] by simp
qed

section \<open>The Command Builder\<close>

lemma flag_step: "(if b then cmd @ [t] else cmd) = cmd @ flag_token b t"
  by (simp add: flag_token_def)

lemma value_step:
  "(case v of Some s \<Rightarrow> if s \<noteq> [] then cmd @ [t, s] else cmd | None \<Rightarrow> cmd)
     = cmd @ value_tokens t v"
  by (cases v) (simp_all add: value_tokens_def truthy_def)

lemma build_command_tokens: "build_command cfg = token_order cfg"
  unfolding build_command_def token_order_def
  by (simp only: flag_step value_step Let_def append_assoc append_Cons append_Nil)

lemma value_tokens_unset: "value_tokens t None = []" "value_tokens t (Some []) = []"
  by (simp_all add: value_tokens_def truthy_def)

lemma str_int_4: "str_int 4 = ''4''"
  by code_simp

text \<open>
  Claim C1. For every Configuration Model, \<^verbatim>\<open>build_command\<close> produces exactly the fixed
  token sequence \<open>token_order\<close>: \<^verbatim>\<open>sudo\<close>, \<^verbatim>\<open>nmap\<close>, the skip-ping, SYN, connect, UDP,
  version-detect and default-script flags, the script-category selector and the
  script-file selector (two separate \<^verbatim>\<open>--script\<close> arguments when both are set, the
  categories first), the OS-detect flag, the decoy list, the timing flag as the single
  token \<^verbatim>\<open>-T\<close> followed by the level, the port range, the target, then the output files
  in the order normal, XML, grepable, JSON. A flag that is off and a value that is not
  set contribute no tokens. The result is a function of the configuration alone. With
  only the SYN scan selected, timing 4 and target \<^verbatim>\<open>example.com\<close> the tokens are
  \<^verbatim>\<open>sudo nmap -sS -T4 example.com\<close>.
\<close>

theorem build_command_token_order:
  "build_command cfg = token_order cfg
   \<and> build_command
        \<lparr>target = ''example.com'', interactive = False, syn_scan = True,
         connect_scan = False, udp_scan = False, version_detect = False,
         script_default = False, script_cats = None, script_file = None,
         os_detect = False, skip_ping = False, decoy = None, timing = 4, ports = None,
         output_normal = None, output_xml = None, output_grep = None,
         output_json = None\<rparr>
       = [''sudo'', ''nmap'', ''-sS'', ''-T4'', ''example.com'']
   \<and> build_command
        \<lparr>target = ''t'', interactive = False, syn_scan = False,
         connect_scan = False, udp_scan = False, version_detect = False,
         script_default = False, script_cats = Some ''vuln'', script_file = Some ''x.nse'',
         os_detect = False, skip_ping = False, decoy = None, timing = 4, ports = None,
         output_normal = None, output_xml = None, output_grep = None,
         output_json = None\<rparr>
       = [''sudo'', ''nmap'', ''--script'', ''vuln'', ''--script'', ''x.nse'', ''-T4'', ''t'']"
  by (simp add: build_command_tokens token_order_def flag_token_def value_tokens_unset
      value_tokens_def truthy_def str_int_4)

text \<open>
  Claim C9. When an optional string field (script categories, script file, decoy list,
  port range, or one of the four output paths) holds the empty string, \<^verbatim>\<open>build_command\<close>
  emits no tokens for it: the token list equals the one built from the same
  configuration with that field set to \<^verbatim>\<open>None\<close>.
\<close>

theorem build_command_empty_string_as_none:
  "build_command (cfg\<lparr>script_cats := Some []\<rparr>) = build_command (cfg\<lparr>script_cats := None\<rparr>)
   \<and> build_command (cfg\<lparr>script_file := Some []\<rparr>) = build_command (cfg\<lparr>script_file := None\<rparr>)
   \<and> build_command (cfg\<lparr>decoy := Some []\<rparr>) = build_command (cfg\<lparr>decoy := None\<rparr>)
   \<and> build_command (cfg\<lparr>ports := Some []\<rparr>) = build_command (cfg\<lparr>ports := None\<rparr>)
   \<and> build_command (cfg\<lparr>output_normal := Some []\<rparr>)
       = build_command (cfg\<lparr>output_normal := None\<rparr>)
   \<and> build_command (cfg\<lparr>output_xml := Some []\<rparr>) = build_command (cfg\<lparr>output_xml := None\<rparr>)
   \<and> build_command (cfg\<lparr>output_grep := Some []\<rparr>) = build_command (cfg\<lparr>output_grep := None\<rparr>)
   \<and> build_command (cfg\<lparr>output_json := Some []\<rparr>) = build_command (cfg\<lparr>output_json := None\<rparr>)"
  by (simp add: build_command_tokens token_order_def value_tokens_unset)

section \<open>What the Target Normalizer leaves\<close>

lemma startswith_split: "startswith s p \<Longrightarrow> s = p @ drop (length p) s"
  unfolding startswith_def by (metis append_take_drop_id)

lemma startswith_length: "startswith s p \<Longrightarrow> length p \<le> length s"
  unfolding startswith_def by (metis length_take min.cobounded1)

lemma remove_prefix_empty_iff: "remove_prefix p s = [] \<longleftrightarrow> s = [] \<or> s = p"
proof (cases "startswith s p")
  case True
  then show ?thesis
    using startswith_split [OF True] by (auto simp: remove_prefix_def)
next
  case False
  then show ?thesis
    by (auto simp: remove_prefix_def startswith_def)
qed

lemma strip_url_empty_iff:
  "strip_url r = [] \<longleftrightarrow>
     r \<in> {[], ''http://'', ''https://'', ''www.'', ''http://www.'', ''https://www.''}"
proof -
  consider (http) "startswith r ''http://''"
    | (https) "\<not> startswith r ''http://''" "startswith r ''https://''"
    | (none) "\<not> startswith r ''http://''" "\<not> startswith r ''https://''"
    by blast
  then show ?thesis
  proof cases
    case http
    obtain x where r: "r = ''http://'' @ x"
      using startswith_split [OF http] by blast
    have d: "drop 7 r = x"
      by (simp add: r)
    have "normalize_spec r = [] \<longleftrightarrow> x = [] \<or> x = ''www.''"
      using http by (simp add: normalize_spec_def remove_prefix_empty_iff d)
    also have "\<dots> \<longleftrightarrow>
        r \<in> {[], ''http://'', ''https://'', ''www.'', ''http://www.'', ''https://www.''}"
      by (auto simp: r)
    finally show ?thesis by (simp add: strip_url_eq)
  next
    case https
    obtain x where r: "r = ''https://'' @ x"
      using startswith_split [OF https(2)] by blast
    have d: "drop 8 r = x"
      by (simp add: r)
    have "normalize_spec r = [] \<longleftrightarrow> x = [] \<or> x = ''www.''"
      using https by (simp add: normalize_spec_def remove_prefix_empty_iff d)
    also have "\<dots> \<longleftrightarrow>
        r \<in> {[], ''http://'', ''https://'', ''www.'', ''http://www.'', ''https://www.''}"
      by (auto simp: r)
    finally show ?thesis by (simp add: strip_url_eq)
  next
    case none
    have "normalize_spec r = [] \<longleftrightarrow> r = [] \<or> r = ''www.''"
      using none by (simp add: normalize_spec_def remove_prefix_empty_iff)
    also have "\<dots> \<longleftrightarrow>
        r \<in> {[], ''http://'', ''https://'', ''www.'', ''http://www.'', ''https://www.''}"
      using none by (auto simp: startswith_def)
    finally show ?thesis by (simp add: strip_url_eq)
  qed
qed

lemma remove_prefix_length: "length (remove_prefix p s) \<le> length s"
  by (simp add: remove_prefix_def)

lemma strip_url_shorter:
  assumes "has_url_prefix r"
  shows "length (strip_url r) < length r"
proof -
  consider (http) "startswith r ''http://''"
    | (https) "\<not> startswith r ''http://''" "startswith r ''https://''"
    | (www) "\<not> startswith r ''http://''" "\<not> startswith r ''https://''"
        "startswith r ''www.''"
    using assms unfolding has_url_prefix_def by blast
  then show ?thesis
  proof cases
    case http
    have "length (normalize_spec r) \<le> length (drop 7 r)"
      using http remove_prefix_length [of "''www.''" "drop 7 r"]
      by (simp add: normalize_spec_def)
    then show ?thesis
      using startswith_length [OF http] by (simp add: strip_url_eq)
  next
    case https
    have "length (normalize_spec r) \<le> length (drop 8 r)"
      using https remove_prefix_length [of "''www.''" "drop 8 r"]
      by (simp add: normalize_spec_def)
    then show ?thesis
      using startswith_length [OF https(2)] by (simp add: strip_url_eq)
  next
    case www
    then have "normalize_spec r = drop 4 r"
      by (simp add: normalize_spec_def remove_prefix_def eval_nat_numeral)
    then show ?thesis
      using startswith_length [OF www(3)] by (simp add: strip_url_eq)
  qed
qed

lemma strip_url_prefix_left:
  assumes "has_url_prefix (strip_url r)"
  shows "strip_url r \<noteq> r"
proof
  assume e: "strip_url r = r"
  then have "has_url_prefix r"
    using assms by simp
  then have "length (strip_url r) < length r"
    by (rule strip_url_shorter)
  then show False
    using e by simp
qed

lemma strip_url_unchanged: "\<not> has_url_prefix r \<Longrightarrow> strip_url r = r"
  by (simp add: strip_url_eq normalize_spec_def remove_prefix_def has_url_prefix_def)

section \<open>The interactive Argument Source\<close>

text \<open>A run that finds nine answers, the seventh of them a valid timing, returns this
  configuration and has written exactly these prompts.\<close>

lemma interactive_mode_run:
  assumes "parse_args cl = Inr a"
    and "stdin w = l1 # l2 # l3 # l4 # l5 # l6 # l7 # l8 # l9 # rest"
    and "timing_answer l7 = Inr n"
  shows "interactive_mode cl w =
           Inr (\<lparr>target = strip_url (strip l1),
                 interactive = False,
                 syn_scan = (''1'' \<in> set (split_str CHR '','' l2)),
                 connect_scan = (''2'' \<in> set (split_str CHR '','' l2)),
                 udp_scan = (''3'' \<in> set (split_str CHR '','' l2)),
                 version_detect = (''4'' \<in> set (split_str CHR '','' l2)),
                 script_default = (''6'' \<in> set (split_str CHR '','' l2)),
                 script_cats = or_none (strip l4),
                 script_file = or_none (strip l5),
                 os_detect = (''5'' \<in> set (split_str CHR '','' l2)),
                 skip_ping = startswith (lower l3) ''y'',
                 decoy = or_none (strip l6),
                 timing = n,
                 ports = Some (or_default (strip l8) ''1-1000''),
                 output_normal = Some (or_default (strip l9) ''scan.txt''),
                 output_xml = None,
                 output_grep = None,
                 output_json = None\<rparr>,
                w\<lparr>stdin := rest,
                  stdout := stdout w @
                    [''--- Interactive Nmap Configuration ---'' @ [CHR 0x0A],
                     ''Target IP/hostname/URL: '',
                     ''Select scans (comma separated): 1) SYN 2) Connect 3) UDP 4) Version 5) OS 6) Default scripts'' @ [CHR 0x0A],
                     ''Enter numbers [1-6]: '',
                     ''Skip host discovery? (y/N): '',
                     ''NSE categories (e.g. vuln,discovery) or leave blank: '',
                     ''Specific NSE script file/dir or blank: '',
                     ''Decoy IPs (comma separated) or blank: '',
                     ''Timing template (0-5) [4]: '',
                     ''Port range [1-1000]: '',
                     ''Output file name [scan.txt]: '']\<rparr>)"
  using assms
  unfolding interactive_mode_def
  by (simp add: bind_def print_def input_def lift_def return_def Let_def)

text \<open>Conversely, a run that returns has found nine answers and a valid timing.\<close>

lemma interactive_mode_Inr:
  assumes "interactive_mode cl w = Inr (cfg, w')"
  shows "\<exists>l1 l2 l3 l4 l5 l6 l7 l8 l9 rest n a.
           stdin w = l1 # l2 # l3 # l4 # l5 # l6 # l7 # l8 # l9 # rest
           \<and> timing_answer l7 = Inr n \<and> parse_args cl = Inr a"
  using assms unfolding interactive_mode_def
  by (auto simp: bind_def print_def input_def lift_def return_def raise_def Let_def
      split: list.splits sum.splits)


lemma interactive_mode_target:
  assumes "interactive_mode cl w = Inr (cfg, w')"
  shows "\<exists>l rest. stdin w = l # rest \<and> target cfg = strip_url (strip l)"
proof -
  obtain l1 l2 l3 l4 l5 l6 l7 l8 l9 rest n a where
    s: "stdin w = l1 # l2 # l3 # l4 # l5 # l6 # l7 # l8 # l9 # rest"
    and t: "timing_answer l7 = Inr n" and p: "parse_args cl = Inr a"
    using interactive_mode_Inr [OF assms] by blast
  show ?thesis
    using interactive_mode_run [OF p s t] assms s by auto
qed

lemma parse_no_arguments:
  "parse_args (Matched no_arguments) = Inr (set_timing no_arguments 4)"
  by (simp add: parse_args_def timing_arg_def no_arguments_def)

lemma stdin_terminal: "stdin (terminal ls) = ls"
  by (simp add: terminal_def)

lemma timing_answer_empty: "timing_answer [] = Inr 4"
  by (simp add: timing_answer_def)

lemma timing_answer_space: "timing_answer '' '' = Inl ValueError"
  by code_simp

lemma timing_answer_9: "timing_answer ''9'' = Inr 9"
  by code_simp

lemma strip_empty: "strip [] = []"
  by (simp add: strip_def)



lemma split_1: "split_str CHR '','' ''1'' = [''1'']"
  by code_simp








section \<open>Choosing the Argument Source\<close>

lemma argument_source_interactive:
  assumes "parse_args (argv e) = Inr args"
    and "interactive args \<or> \<not> truthy (target args)"
  shows "argument_source e w = interactive_mode (argv e) w"
  using assms by (simp add: argument_source_def bind_def lift_def return_def)

lemma main_after_config:
  assumes "argument_source e w = Inr (cfg, w1)"
  shows "main e w = process_runner e (build_command cfg) w1"
  using assms by (simp add: main_def bind_def)

lemma no_arguments_interactive:
  "argument_source (session no_arguments st) w = interactive_mode (Matched no_arguments) w"
proof -
  have p: "parse_args (argv (session no_arguments st)) = Inr (set_timing no_arguments 4)"
    by (simp add: session_def parse_no_arguments)
  have q: "interactive (set_timing no_arguments (4::int))
           \<or> \<not> truthy (target (set_timing no_arguments (4::int)))"
    by (simp add: set_timing_def no_arguments_def truthy_def)
  show ?thesis
    using argument_source_interactive [OF p q, of w] by (simp add: session_def)
qed

lemma argument_source_cases:
  assumes "argument_source e w = Inr (cfg, w')"
  obtains (interactive) args where "parse_args (argv e) = Inr args"
      "interactive args \<or> \<not> truthy (target args)"
      "interactive_mode (argv e) w = Inr (cfg, w')"
    | (direct) args t where "parse_args (argv e) = Inr args"
      "\<not> interactive args" "target args = Some t" "t \<noteq> []"
      "cfg = set_target args (strip_url t)" "w' = w"
proof -
  obtain args where p: "parse_args (argv e) = Inr args"
    using assms
    by (auto simp: argument_source_def bind_def lift_def raise_def return_def
        split: sum.splits)
  show thesis
  proof (cases "interactive args \<or> \<not> truthy (target args)")
    case True
    then show ?thesis
      using interactive [OF p True] assms argument_source_interactive [OF p True] by simp
  next
    case False
    then obtain t where t: "target args = Some t" "t \<noteq> []"
      by (auto simp: truthy_def split: option.splits)
    from False p assms have "cfg = set_target args (strip_url t)" "w' = w"
      by (auto simp: argument_source_def bind_def lift_def return_def t)
    then show ?thesis
      using direct [OF p _ t] False by blast
  qed
qed



section \<open>The target of the final configuration\<close>

lemma strip_example: "strip ''example.com'' = ''example.com''"
  by code_simp

lemma strip_www_www: "strip ''www.www.example.com'' = ''www.www.example.com''"
  by code_simp

lemma int_of_str_5: "int_of_str ''5'' = Inr 5"
  by code_simp

lemma strip_url_example: "strip_url ''https://example.com'' = ''example.com''"
  by (simp add: strip_url_def sub_at_start_def url_prefix_def)

lemma parse_usage_example:
  "parse_args (Matched usage_example) = Inr (set_timing usage_example 5)"
  by (simp add: parse_args_def timing_arg_def usage_example_def no_arguments_def
      int_of_str_5)

lemma argument_source_example:
  "argument_source (session usage_example st) w =
     Inr (set_target (set_timing usage_example 5) ''example.com'', w)"
proof -
  let ?a = "set_timing usage_example (5::int)"
  have t: "target ?a = Some ''https://example.com''" "\<not> interactive ?a"
    by (simp_all add: set_timing_def usage_example_def no_arguments_def)
  have "argument_source (session usage_example st) w =
          (if interactive ?a \<or> \<not> truthy (target ?a)
           then interactive_mode (Matched usage_example)
           else return (set_target ?a (strip_url (the (target ?a))))) w"
    by (simp only: argument_source_def session_def env.simps parse_usage_example
        bind_def lift_def return_def sum.case prod.case)
  then show ?thesis
    by (simp add: t truthy_def strip_url_example return_def)
qed

lemma argument_source_scheme_only:
  "argument_source (session (no_arguments\<lparr>target := Some ''http://''\<rparr>) st) w =
     Inr (set_target (set_timing (no_arguments\<lparr>target := Some ''http://''\<rparr>) 4) [], w)"
proof -
  let ?m = "no_arguments\<lparr>target := Some ''http://''\<rparr>"
  let ?a = "set_timing ?m (4::int)"
  have p: "parse_args (Matched ?m) = Inr ?a"
    by (simp add: parse_args_def timing_arg_def no_arguments_def)
  have t: "target ?a = Some ''http://''" "\<not> interactive ?a"
    by (simp_all add: set_timing_def no_arguments_def)
  have x: "strip_url ''http://'' = []"
    by (simp add: strip_url_def sub_at_start_def url_prefix_def)
  have "argument_source (session ?m st) w =
          (if interactive ?a \<or> \<not> truthy (target ?a)
           then interactive_mode (Matched ?m)
           else return (set_target ?a (strip_url (the (target ?a))))) w"
    by (simp only: argument_source_def session_def env.simps p
        bind_def lift_def return_def sum.case prod.case)
  then show ?thesis
    by (simp add: t truthy_def x return_def)
qed

text \<open>
  Claim C5 does not hold as stated. Given \<^verbatim>\<open>http://\<close> as the target on the command
  line, the final configuration has the empty target; and the answer
  \<^verbatim>\<open>www.www.example.com\<close> in interactive mode leaves the target \<^verbatim>\<open>www.example.com\<close>,
  which begins with \<^verbatim>\<open>www.\<close>.
\<close>

theorem finalized_target_counterexample:
  "map_sum fst (target \<circ> fst)
     (argument_source (session (no_arguments\<lparr>target := Some ''http://''\<rparr>) 0) (terminal []))
     = Inr []
   \<and> map_sum fst (target \<circ> fst)
       (argument_source (session no_arguments 0)
          (terminal [''www.www.example.com'', ''1'', [], [], [], [], [], [], []]))
     = Inr ''www.example.com''"
proof -
  have x: "strip_url ''www.www.example.com'' = ''www.example.com''"
    by (simp add: strip_url_def sub_at_start_def url_prefix_def)
  have a: "map_sum fst (target \<circ> fst)
     (argument_source (session (no_arguments\<lparr>target := Some ''http://''\<rparr>) 0) (terminal []))
     = Inr []"
    unfolding argument_source_scheme_only by (simp add: set_target_def)
  have b: "map_sum fst (target \<circ> fst)
       (argument_source (session no_arguments 0)
          (terminal [''www.www.example.com'', ''1'', [], [], [], [], [], [], []]))
     = Inr ''www.example.com''"
    unfolding no_arguments_interactive
      interactive_mode_run [OF parse_no_arguments stdin_terminal timing_answer_empty]
    by (simp add: strip_www_www x)
  from a b show ?thesis by (rule conjI)
qed

text \<open>
  Claim C5 as amended. In every final configuration the target is the supplied text
  after one application of \<^verbatim>\<open>strip_url\<close>, where the supplied text is the non-empty
  target of the command line or, in interactive mode, the first answer stripped of
  white space. The target is empty exactly when the supplied text is empty or is one of
  \<^verbatim>\<open>http://\<close>, \<^verbatim>\<open>https://\<close>, \<^verbatim>\<open>www.\<close>, \<^verbatim>\<open>http://www.\<close>, \<^verbatim>\<open>https://www.\<close>; and it
  begins with \<^verbatim>\<open>http://\<close>, \<^verbatim>\<open>https://\<close> or \<^verbatim>\<open>www.\<close> only when a prefix was removed
  in front of it.
\<close>

theorem finalized_target:
  assumes "argument_source e w = Inr (cfg, w')"
  shows "\<exists>raw. target cfg = strip_url raw
          \<and> ((\<exists>args. parse_args (argv e) = Inr args \<and> \<not> interactive args
                    \<and> target args = Some raw \<and> raw \<noteq> [])
             \<or> (\<exists>l rest. stdin w = l # rest \<and> raw = strip l))
          \<and> (target cfg = [] \<longleftrightarrow>
               raw \<in> {[], ''http://'', ''https://'', ''www.'', ''http://www.'',
                       ''https://www.''})
          \<and> (has_url_prefix (target cfg) \<longrightarrow> target cfg \<noteq> raw)"
proof -
  have "\<exists>raw. target cfg = strip_url raw
          \<and> ((\<exists>args. parse_args (argv e) = Inr args \<and> \<not> interactive args
                    \<and> target args = Some raw \<and> raw \<noteq> [])
             \<or> (\<exists>l rest. stdin w = l # rest \<and> raw = strip l))"
    using assms
  proof (cases rule: argument_source_cases)
    case (interactive args)
    then show ?thesis
      using interactive_mode_target [OF interactive(3)] by blast
  next
    case (direct args t)
    have "target cfg = strip_url t"
      by (simp add: direct(5) set_target_def)
    then show ?thesis
      using direct by blast
  qed
  then obtain raw where r: "target cfg = strip_url raw"
    and s: "(\<exists>args. parse_args (argv e) = Inr args \<and> \<not> interactive args
                    \<and> target args = Some raw \<and> raw \<noteq> [])
             \<or> (\<exists>l rest. stdin w = l # rest \<and> raw = strip l)"
    by blast
  have a: "target cfg = [] \<longleftrightarrow>
               raw \<in> {[], ''http://'', ''https://'', ''www.'', ''http://www.'',
                       ''https://www.''}"
    unfolding r by (rule strip_url_empty_iff)
  have b: "has_url_prefix (target cfg) \<longrightarrow> target cfg \<noteq> raw"
    unfolding r using strip_url_prefix_left by blast
  from r s a b show ?thesis by blast
qed

theorem finalized_target_witness:
  "argument_source (session usage_example 0) (terminal [])
     = Inr (set_target (set_timing usage_example 5) ''example.com'', terminal [])
   \<and> target (set_target (set_timing usage_example (5::int)) ''example.com'') = ''example.com''
   \<and> (\<exists>raw. target (set_target (set_timing usage_example (5::int)) ''example.com'')
              = strip_url raw
          \<and> ((\<exists>args. parse_args (argv (session usage_example 0)) = Inr args
                    \<and> \<not> interactive args \<and> target args = Some raw \<and> raw \<noteq> [])
             \<or> (\<exists>l rest. stdin (terminal []) = l # rest \<and> raw = strip l))
          \<and> \<not> has_url_prefix (target (set_target (set_timing usage_example (5::int))
                 ''example.com'')))"
proof -
  let ?cfg = "set_target (set_timing usage_example (5::int)) ''example.com''"
  have t: "target ?cfg = ''example.com''"
    by (simp add: set_target_def)
  have n: "\<not> has_url_prefix (target ?cfg)"
    by (simp add: t has_url_prefix_def startswith_def)
  show ?thesis
    using finalized_target [OF argument_source_example [of 0 "terminal []"]]
      argument_source_example [of 0 "terminal []"] t n
    by auto
qed

section \<open>The timing template\<close>

text \<open>On the command line a timing outside 0 to 5 is a usage error: the program leaves
  with status 2 and the world is as before, nothing launched.\<close>

lemma parse_args_timing_range:
  assumes "parse_args cl = Inr a"
  shows "0 \<le> timing a \<and> timing a \<le> 5"
  using assms
  by (auto simp: parse_args_def timing_arg_def set_timing_def
      split: cmdline.splits option.splits sum.splits if_splits)

lemma direct_timing_range:
  assumes "argument_source e w = Inr (cfg, w')"
    and "parse_args (argv e) = Inr args"
    and "\<not> (interactive args \<or> \<not> truthy (target args))"
  shows "0 \<le> timing cfg \<and> timing cfg \<le> 5"
  using assms parse_args_timing_range [OF assms(2)]
  by (auto simp: argument_source_def bind_def lift_def return_def set_target_def)

lemma timing_out_of_range_rejected:
  assumes "argv e = Matched m" and "timing m = Some s" and "int_of_str s = Inr n"
    and "n < 0 \<or> 5 < n"
  shows "main e w = Inl (SystemExit 2, w)"
  using assms
  by (auto simp: main_def argument_source_def bind_def lift_def raise_def parse_args_def
      timing_arg_def)

lemma str_int_9: "str_int 9 = ''9''"
  by code_simp

lemma uint8_exit: "uint (s :: 8 word) mod 256 = uint s"
  using uint_bounded [of s] by simp

lemma process_runner_success:
  assumes "child e cmd = Exited 0"
  shows "process_runner e cmd w =
           Inr ((), w\<lparr>stdout := stdout w @ [''Running: '' @ join '' '' cmd @ [CHR 0x0A],
                                             ''Scan complete.'' @ [CHR 0x0A]],
                       launched := launched w @ [cmd]\<rparr>)"
  using assms
  by (simp add: process_runner_def bind_def print_def run_def try_except_def Let_def)

lemma process_runner_failure:
  assumes "child e cmd = Exited s" and "s \<noteq> 0"
  shows "process_runner e cmd w =
           Inl (SystemExit (uint s),
                w\<lparr>stdout := stdout w @ [''Running: '' @ join '' '' cmd @ [CHR 0x0A]],
                  stderr := stderr w @ [''Error: '' @ error_text e cmd (uint s) @ [CHR 0x0A]],
                  launched := launched w @ [cmd]\<rparr>)"
  using assms
  by (simp add: process_runner_def bind_def print_def print_err_def run_def try_except_def
      raise_def Let_def uint_0_iff)

lemma nine_config:
  "argument_source (session no_arguments 0)
      (terminal [''example.com'', ''1'', [], [], [], [], ''9'', [], []])
     = Inr (\<lparr>target = ''example.com'', interactive = False, syn_scan = True,
             connect_scan = False, udp_scan = False, version_detect = False,
             script_default = False, script_cats = None, script_file = None,
             os_detect = False, skip_ping = False, decoy = None, timing = 9,
             ports = Some ''1-1000'', output_normal = Some ''scan.txt'',
             output_xml = None, output_grep = None, output_json = None\<rparr>,
            (terminal [])\<lparr>stdout :=
              [''--- Interactive Nmap Configuration ---'' @ [CHR 0x0A],
               ''Target IP/hostname/URL: '',
               ''Select scans (comma separated): 1) SYN 2) Connect 3) UDP 4) Version 5) OS 6) Default scripts'' @ [CHR 0x0A],
               ''Enter numbers [1-6]: '',
               ''Skip host discovery? (y/N): '',
               ''NSE categories (e.g. vuln,discovery) or leave blank: '',
               ''Specific NSE script file/dir or blank: '',
               ''Decoy IPs (comma separated) or blank: '',
               ''Timing template (0-5) [4]: '',
               ''Port range [1-1000]: '',
               ''Output file name [scan.txt]: '']\<rparr>)"
proof -
  have x: "strip_url ''example.com'' = ''example.com''"
    by (simp add: strip_url_def sub_at_start_def url_prefix_def)
  show ?thesis
    unfolding no_arguments_interactive
      interactive_mode_run [OF parse_no_arguments stdin_terminal timing_answer_9]
    by (simp add: strip_example x split_1 strip_empty or_none_def or_default_def
        startswith_def lower_def terminal_def)
qed

text \<open>
  Claim C4 fails on the interactive path, which the code leaves without the range check
  its own prompt \<^verbatim>\<open>Timing template (0-5) [4]:\<close> announces and the command-line path
  performs. With the answer \<^verbatim>\<open>9\<close> to the timing prompt the final configuration has
  timing 9, and the program launches the scan with \<^verbatim>\<open>-T9\<close> and ends with status 0.
\<close>

theorem interactive_timing_out_of_range:
  "map_sum fst (timing \<circ> fst)
     (argument_source (session no_arguments 0)
        (terminal [''example.com'', ''1'', [], [], [], [], ''9'', [], []])) = Inr 9
   \<and> launched (final_world (main (session no_arguments 0)
         (terminal [''example.com'', ''1'', [], [], [], [], ''9'', [], []])))
       = [[''sudo'', ''nmap'', ''-sS'', ''-T9'', ''-p'', ''1-1000'', ''example.com'',
           ''-oN'', ''scan.txt'']]
   \<and> exit_status (main (session no_arguments 0)
         (terminal [''example.com'', ''1'', [], [], [], [], ''9'', [], []])) = 0"
proof -
  have c: "child (session no_arguments 0) cmd = Exited 0" for cmd
    by (simp add: session_def)
  show ?thesis
    unfolding main_after_config [OF nine_config] process_runner_success [OF c] nine_config
    by (simp add: final_world_def exit_status_def terminal_def build_command_tokens
        token_order_def flag_token_def value_tokens_def truthy_def str_int_9)
qed

section \<open>The Process Runner\<close>

text \<open>
  Claim C2. Once the configuration is final, \<^verbatim>\<open>main\<close> is the Process Runner on the built
  command. When the child leaves with status 0 the program prints
  \<^verbatim>\<open>Scan complete.\<close> and ends with status 0. When the child leaves with a status
  other than 0 the program writes the error to standard error and ends through
  \<^verbatim>\<open>sys.exit\<close> with the child's status, which is then its own exit status.
\<close>

theorem process_runner_reports:
  assumes "argument_source e w = Inr (cfg, w1)"
  shows "main e w = process_runner e (build_command cfg) w1
   \<and> (child e (build_command cfg) = Exited 0 \<longrightarrow>
      main e w =
        Inr ((), w1\<lparr>stdout := stdout w1 @
                        [''Running: '' @ join '' '' (build_command cfg) @ [CHR 0x0A],
                         ''Scan complete.'' @ [CHR 0x0A]],
                     launched := launched w1 @ [build_command cfg]\<rparr>)
      \<and> exit_status (main e w) = 0)
   \<and> (child e (build_command cfg) = Exited s \<and> s \<noteq> 0 \<longrightarrow>
      main e w =
        Inl (SystemExit (uint s),
             w1\<lparr>stdout := stdout w1 @
                     [''Running: '' @ join '' '' (build_command cfg) @ [CHR 0x0A]],
               stderr := stderr w1 @
                     [''Error: '' @ error_text e (build_command cfg) (uint s) @ [CHR 0x0A]],
               launched := launched w1 @ [build_command cfg]\<rparr>)
      \<and> exit_status (main e w) = uint s)"
proof -
  have m: "main e w = process_runner e (build_command cfg) w1"
    using assms by (rule main_after_config)
  show ?thesis
    unfolding m
    by (auto simp: process_runner_success process_runner_failure exit_status_def uint8_exit)
qed

theorem process_runner_reports_witness:
  "argument_source (session usage_example 0) (terminal [])
     = Inr (set_target (set_timing usage_example 5) ''example.com'', terminal [])
   \<and> child (session usage_example 0)
         (build_command (set_target (set_timing usage_example 5) ''example.com''))
       = Exited 0
   \<and> exit_status (main (session usage_example 0) (terminal [])) = 0
   \<and> child (session usage_example 3)
         (build_command (set_target (set_timing usage_example 5) ''example.com''))
       = Exited 3
   \<and> (3 :: 8 word) \<noteq> 0
   \<and> exit_status (main (session usage_example 3) (terminal [])) = 3
   \<and> stderr (final_world (main (session usage_example 3) (terminal [])))
       = [''Error: failed'' @ [CHR 0x0A]]"
proof -
  let ?cfg = "set_target (set_timing usage_example 5) ''example.com''"
  have a: "child (session usage_example 0) (build_command ?cfg) = Exited 0"
    by (simp add: session_def)
  have b: "child (session usage_example 3) (build_command ?cfg) = Exited 3
      \<and> (3 :: 8 word) \<noteq> 0"
    by (simp add: session_def)
  have e: "error_text (session usage_example 3) (build_command ?cfg) (uint (3 :: 8 word))
      = ''failed''"
    by (simp add: session_def)
  have z: "exit_status (main (session usage_example 0) (terminal [])) = 0"
    using process_runner_reports [OF argument_source_example [of 0 "terminal []"], of 0] a
    by blast
  note th = process_runner_reports [OF argument_source_example [of 3 "terminal []"], of 3]
  have t1: "exit_status (main (session usage_example 3) (terminal [])) = uint (3 :: 8 word)"
    using th b by blast
  have t2: "main (session usage_example 3) (terminal []) =
        Inl (SystemExit (uint (3 :: 8 word)),
             (terminal [])\<lparr>stdout := stdout (terminal []) @
                     [''Running: '' @ join '' '' (build_command ?cfg) @ [CHR 0x0A]],
               stderr := stderr (terminal []) @
                     [''Error: '' @ error_text (session usage_example 3) (build_command ?cfg)
                        (uint (3 :: 8 word)) @ [CHR 0x0A]],
               launched := launched (terminal []) @ [build_command ?cfg]\<rparr>)"
    using th b by blast
  have t: "exit_status (main (session usage_example 3) (terminal [])) = 3
      \<and> stderr (final_world (main (session usage_example 3) (terminal [])))
          = [''Error: failed'' @ [CHR 0x0A]]"
    using t1 unfolding t2 e by (simp add: final_world_def terminal_def)
  show ?thesis
    using a b z t argument_source_example [of 0 "terminal []"] by simp
qed

end
